theory Spec2Isabelle
  imports Main "HOL-Library.Word"
begin

unbundle bit_operations_syntax

section \<open>The raw data stream node of ublox\_gps (raw\_data\_pa.cpp)\<close>

text \<open>
  A shallow embedding of \<^verbatim>\<open>ublox_node::RawDataStreamPa\<close>. The object is a record of its
  member variables; every member function takes the object and returns it updated.
  What the node does to the outside world is kept in the record as well: the messages
  handed to the publisher, the subscription, the lines given to the logger and the bytes
  written through the file stream. The file system and the clock are arguments of
  \<open>initialize\<close>, the only member function that consults them.
\<close>

subsection \<open>Bytes and characters\<close>

text \<open>
  \<^verbatim>\<open>unsigned char\<close> and \<^verbatim>\<open>uint8_t\<close> are 8-bit words, the elements of a
  \<^verbatim>\<open>std::string\<close> are HOL characters (8 bits as well). \<^verbatim>\<open>std::copy\<close> and
  \<^verbatim>\<open>reinterpret_cast\<close> between the two keep the bit pattern.
\<close>

type_synonym uint8 = "8 word"
type_synonym uint32 = "32 word"

definition uint8_of_char :: "char \<Rightarrow> uint8" where
  "uint8_of_char c = of_nat (of_char c)"

definition char_of_uint8 :: "uint8 \<Rightarrow> char" where
  "char_of_uint8 b = char_of (unat b)"

subsection \<open>Messages (std\_msgs)\<close>

record MultiArrayDimension =
  label :: string
  size_dim :: uint32
  stride :: uint32

record MultiArrayLayout =
  dim :: "MultiArrayDimension list"
  data_offset :: uint32

record UInt8MultiArray =
  layout :: MultiArrayLayout
  data :: "uint8 list"

text \<open>A default-constructed message: empty strings and vectors, zero numbers.\<close>

definition MultiArrayDimension_init :: MultiArrayDimension where
  "MultiArrayDimension_init = \<lparr>label = [], size_dim = 0, stride = 0\<rparr>"

definition UInt8MultiArray_init :: UInt8MultiArray where
  "UInt8MultiArray_init = \<lparr>layout = \<lparr>dim = [], data_offset = 0\<rparr>, data = []\<rparr>"

subsection \<open>Parameters, logger, failures\<close>

datatype ParameterValue = ParameterString string | ParameterBool bool

fun same_type :: "ParameterValue \<Rightarrow> ParameterValue \<Rightarrow> bool" where
  "same_type (ParameterString _) (ParameterString _) = True"
| "same_type (ParameterBool _) (ParameterBool _) = True"
| "same_type _ _ = False"

text \<open>
  What stops a member function before it returns: the exceptions of the parameter
  interface, and a read beyond the buffer handed to \<open>ubloxCallback\<close> (undefined
  behaviour in C++, a failure here).
\<close>

datatype failure =
    ParameterAlreadyDeclaredException string
  | InvalidParameterTypeException string
  | ParameterNotDeclaredException string
  | ParameterTypeException string
  | BufferOverrun

datatype severity = INFO | WARN | ERROR

text \<open>A log line: severity, format string, and the string arguments of the format.\<close>

type_synonym log_line = "severity \<times> string \<times> string list"

subsection \<open>The output file stream\<close>

text \<open>
  \<^verbatim>\<open>std::ofstream\<close>: \<open>rdbuf\<close> is the path of the file the stream is attached to
  (\<open>None\<close> while it is closed), \<open>failbit\<close> says that an operation failed, and
  \<open>written\<close> is the sequence of bytes written to the attached file so far. The file is
  truncated when it is opened, so \<open>written\<close> is the content of the file.
  The exception mask of the stream is never set in this program, so no stream
  operation throws: a failure sets \<open>failbit\<close> and the stream ignores every output
  until the flag is cleared. Writing to an open stream in good state is taken to
  succeed (no device error).
\<close>

record ofstream =
  rdbuf :: "string option"
  failbit :: bool
  written :: string

definition ofstream_init :: ofstream where
  "ofstream_init = \<lparr>rdbuf = None, failbit = False, written = []\<rparr>"

definition is_open :: "ofstream \<Rightarrow> bool" where
  "is_open f = (rdbuf f \<noteq> None)"

definition ofstream_write :: "string \<Rightarrow> ofstream \<Rightarrow> ofstream" where
  "ofstream_write str f =
     (if failbit f then f
      else if rdbuf f = None then f\<lparr>failbit := True\<rparr>
      else f\<lparr>written := written f @ str\<rparr>)"

subsection \<open>The operating system\<close>

text \<open>
  \<^verbatim>\<open>struct stat\<close> with the one field the program reads, and the file type bits of
  \<^verbatim>\<open>sys/stat.h\<close> (octal 0170000, 0040000, 0060000, 0100000, 0140000).
\<close>

record stat =
  st_mode :: uint32

definition S_IFMT :: uint32 where "S_IFMT = 0xF000"
definition S_IFDIR :: uint32 where "S_IFDIR = 0x4000"
definition S_IFBLK :: uint32 where "S_IFBLK = 0x6000"
definition S_IFREG :: uint32 where "S_IFREG = 0x8000"
definition S_IFSOCK :: uint32 where "S_IFSOCK = 0xC000"

definition S_ISDIR :: "uint32 \<Rightarrow> bool" where
  "S_ISDIR m = (m AND S_IFMT = S_IFDIR)"

text \<open>
  The file system maps a path to the status of the file there. The two system calls of
  the program are parameters: \<open>os_stat\<close> is \<^verbatim>\<open>::stat\<close> (\<open>None\<close> when it returns
  non-zero), \<open>os_open\<close> opens a file for writing, creating or truncating it (\<open>None\<close>
  when that fails, else the file system afterwards).
\<close>

type_synonym filesystem = "string \<rightharpoonup> stat"

record os =
  os_stat :: "filesystem \<Rightarrow> string \<Rightarrow> stat option"
  os_open :: "filesystem \<Rightarrow> string \<Rightarrow> filesystem option"

definition ofstream_open :: "os \<Rightarrow> string \<Rightarrow> filesystem \<times> ofstream \<Rightarrow> filesystem \<times> ofstream" where
  "ofstream_open sys path = (\<lambda>(fs, f).
     if rdbuf f \<noteq> None then (fs, f\<lparr>failbit := True\<rparr>)
     else (case os_open sys fs path of
             None \<Rightarrow> (fs, f\<lparr>failbit := True\<rparr>)
           | Some fs' \<Rightarrow> (fs', f\<lparr>rdbuf := Some path, failbit := False, written := []\<rparr>)))"

subsection \<open>Local time and the string stream\<close>

text \<open>\<^verbatim>\<open>struct tm\<close>, the fields the program reads.\<close>

record tm =
  tm_min :: int
  tm_hour :: int
  tm_mday :: int
  tm_mon :: int
  tm_year :: int

fun dec :: "nat \<Rightarrow> string" where
  "dec n = (if n < 10 then [''0123456789'' ! n]
            else dec (n div 10) @ [''0123456789'' ! (n mod 10)])"

definition show_int :: "int \<Rightarrow> string" where
  "show_int i = (if i < 0 then CHR ''-'' # dec (nat (- i)) else dec (nat i))"

text \<open>
  \<^verbatim>\<open>std::stringstream\<close> with its field width and fill character. Output is adjusted
  to the right (the default), and every formatted output resets the width to 0.
\<close>

record stringstream =
  width :: nat
  fill :: char
  str :: string

definition stringstream_init :: stringstream where
  "stringstream_init = \<lparr>width = 0, fill = CHR '' '', str = []\<rparr>"

definition set_width :: "nat \<Rightarrow> stringstream \<Rightarrow> stringstream" where
  "set_width w ss = ss\<lparr>width := w\<rparr>"

definition set_fill :: "char \<Rightarrow> stringstream \<Rightarrow> stringstream" where
  "set_fill c ss = ss\<lparr>fill := c\<rparr>"

definition put_string :: "string \<Rightarrow> stringstream \<Rightarrow> stringstream" where
  "put_string s ss =
     ss\<lparr>str := str ss @ replicate (width ss - length s) (fill ss) @ s, width := 0\<rparr>"

definition put_int :: "int \<Rightarrow> stringstream \<Rightarrow> stringstream" where
  "put_int i = put_string (show_int i)"

definition put_char :: "char \<Rightarrow> stringstream \<Rightarrow> stringstream" where
  "put_char c = put_string [c]"

subsection \<open>The node\<close>

record raw_data_pa =
  flag_publish :: bool
  is_ros_subscriber :: bool
  file_dir :: string
  file_name :: string
  file_handle :: ofstream
  raw_pub :: "UInt8MultiArray list"
  raw_data_stream_sub :: bool
  parameter_overrides :: "(string \<times> ParameterValue) list"
  parameters :: "(string \<times> ParameterValue) list"
  logger :: "log_line list"

text \<open>
  \<open>raw_pub\<close> is the sequence of messages published on \<^verbatim>\<open>~/raw_data_stream\<close>,
  \<open>raw_data_stream_sub\<close> says whether \<open>msgCallback\<close> is subscribed to
  \<^verbatim>\<open>raw_data_stream\<close>. \<open>parameter_overrides\<close> are the values given to the node from
  outside (launch file, command line); \<open>parameters\<close> are the declared parameters.
\<close>

definition RCLCPP_INFO :: "string \<Rightarrow> string list \<Rightarrow> raw_data_pa \<Rightarrow> raw_data_pa" where
  "RCLCPP_INFO fmt args n = n\<lparr>logger := logger n @ [(INFO, fmt, args)]\<rparr>"

definition RCLCPP_ERROR :: "string \<Rightarrow> string list \<Rightarrow> raw_data_pa \<Rightarrow> raw_data_pa" where
  "RCLCPP_ERROR fmt args n = n\<lparr>logger := logger n @ [(ERROR, fmt, args)]\<rparr>"

text \<open>
  \<^verbatim>\<open>declare_parameter(name, default)\<close>: the parameter takes the override of that name
  when there is one, else the default; an override of another type than the default
  throws. \<^verbatim>\<open>get_parameter(name).get_value<T>()\<close> throws when the parameter is not
  declared or holds another type.
\<close>

definition declare_parameter ::
  "string \<Rightarrow> ParameterValue \<Rightarrow> raw_data_pa \<Rightarrow> failure + raw_data_pa" where
  "declare_parameter name default_value n =
     (if map_of (parameters n) name \<noteq> None then Inl (ParameterAlreadyDeclaredException name)
      else (case map_of (parameter_overrides n) name of
              None \<Rightarrow> Inr (n\<lparr>parameters := (name, default_value) # parameters n\<rparr>)
            | Some v \<Rightarrow>
                if same_type v default_value
                then Inr (n\<lparr>parameters := (name, v) # parameters n\<rparr>)
                else Inl (InvalidParameterTypeException name)))"

definition get_string_parameter :: "raw_data_pa \<Rightarrow> string \<Rightarrow> failure + string" where
  "get_string_parameter n name =
     (case map_of (parameters n) name of
        None \<Rightarrow> Inl (ParameterNotDeclaredException name)
      | Some (ParameterString s) \<Rightarrow> Inr s
      | Some (ParameterBool _) \<Rightarrow> Inl (ParameterTypeException name))"

definition get_bool_parameter :: "raw_data_pa \<Rightarrow> string \<Rightarrow> failure + bool" where
  "get_bool_parameter n name =
     (case map_of (parameters n) name of
        None \<Rightarrow> Inl (ParameterNotDeclaredException name)
      | Some (ParameterBool b) \<Rightarrow> Inr b
      | Some (ParameterString _) \<Rightarrow> Inl (ParameterTypeException name))"

definition and_then :: "'e + 'a \<Rightarrow> ('a \<Rightarrow> 'e + 'b) \<Rightarrow> 'e + 'b" where
  "and_then r f = (case r of Inl e \<Rightarrow> Inl e | Inr x \<Rightarrow> f x)"

text \<open>The constructor (lines 57 to 66).\<close>

definition RawDataStreamPa :: "(string \<times> ParameterValue) list \<Rightarrow> bool \<Rightarrow> failure + raw_data_pa" where
  "RawDataStreamPa overrides is_ros_subscriber' =
     and_then (and_then (declare_parameter ''dir'' (ParameterString [])
       \<lparr>flag_publish = False,
        is_ros_subscriber = is_ros_subscriber',
        file_dir = [],
        file_name = [],
        file_handle = ofstream_init,
        raw_pub = [],
        raw_data_stream_sub = False,
        parameter_overrides = overrides,
        parameters = [],
        logger = []\<rparr>)
       (declare_parameter ''raw_data_stream.dir'' (ParameterString [])))
       (declare_parameter ''raw_data_stream.publish'' (ParameterBool False))"

text \<open>\<open>getRosParams\<close> (lines 68 to 76).\<close>

definition getRosParams :: "raw_data_pa \<Rightarrow> failure + raw_data_pa" where
  "getRosParams n =
     (if is_ros_subscriber n then
        and_then (get_string_parameter n ''dir'') (\<lambda>d. Inr (n\<lparr>file_dir := d\<rparr>))
      else
        and_then (get_string_parameter n ''raw_data_stream.dir'') (\<lambda>d.
        and_then (get_bool_parameter n ''raw_data_stream.publish'') (\<lambda>b.
          Inr (n\<lparr>file_dir := d, flag_publish := b\<rparr>))))"

text \<open>\<open>isEnabled\<close> (lines 78 to 85).\<close>

definition isEnabled :: "raw_data_pa \<Rightarrow> bool" where
  "isEnabled n =
     (if is_ros_subscriber n then file_dir n \<noteq> []
      else flag_publish n \<or> file_dir n \<noteq> [])"

text \<open>\<open>str2uint8\<close> (lines 166 to 181) and \<open>publishMsg\<close> (lines 183 to 186).\<close>

definition str2uint8 :: "string \<Rightarrow> UInt8MultiArray" where
  "str2uint8 s =
     (let msg = UInt8MultiArray_init;
          msg = msg\<lparr>layout := (layout msg)\<lparr>data_offset := 0\<rparr>\<rparr>;
          msg = msg\<lparr>layout := (layout msg)\<lparr>dim := dim (layout msg) @ [MultiArrayDimension_init]\<rparr>\<rparr>;
          msg = msg\<lparr>layout := (layout msg)\<lparr>dim :=
                  (dim (layout msg))[0 := (dim (layout msg) ! 0)\<lparr>size_dim := of_nat (length s)\<rparr>]\<rparr>\<rparr>;
          msg = msg\<lparr>layout := (layout msg)\<lparr>dim :=
                  (dim (layout msg))[0 := (dim (layout msg) ! 0)\<lparr>stride := 1\<rparr>]\<rparr>\<rparr>;
          msg = msg\<lparr>layout := (layout msg)\<lparr>dim :=
                  (dim (layout msg))[0 := (dim (layout msg) ! 0)\<lparr>label := ''raw_data_stream''\<rparr>]\<rparr>\<rparr>;
          msg = msg\<lparr>data := map uint8_of_char s\<rparr>
      in msg)"

definition publishMsg :: "string \<Rightarrow> raw_data_pa \<Rightarrow> raw_data_pa" where
  "publishMsg s n = n\<lparr>raw_pub := raw_pub n @ [str2uint8 s]\<rparr>"

text \<open>
  \<open>saveToFile\<close> (lines 188 to 198). The stream does not throw, so the handler of
  the \<^verbatim>\<open>try\<close> block, which warns, is never entered.
\<close>

definition saveToFile :: "string \<Rightarrow> raw_data_pa \<Rightarrow> raw_data_pa" where
  "saveToFile s n =
     (if is_open (file_handle n)
      then n\<lparr>file_handle := ofstream_write s (file_handle n)\<rparr>
      else n)"

text \<open>
  \<open>ubloxCallback\<close> (lines 146 to 156). \<open>buf\<close> is the memory that \<^verbatim>\<open>data\<close> points to;
  the string constructor reads \<open>sz\<close> bytes of it.
\<close>

definition ubloxCallback :: "uint8 list \<Rightarrow> nat \<Rightarrow> raw_data_pa \<Rightarrow> failure + raw_data_pa" where
  "ubloxCallback buf sz n =
     (if sz \<le> length buf then
        (let s = map char_of_uint8 (take sz buf);
             n = (if flag_publish n then publishMsg s n else n)
         in Inr (saveToFile s n))
      else Inl BufferOverrun)"

text \<open>
  \<open>msgCallback\<close> (lines 158 to 164). \<open>msg_str\<close> is its local string: as long as the
  data of the message, first blank, then overwritten by the copy.
\<close>

definition msg_str :: "UInt8MultiArray \<Rightarrow> string" where
  "msg_str msg =
     map char_of_uint8 (data msg) @
     drop (length (data msg)) (replicate (length (data msg)) CHR '' '')"

definition msgCallback :: "UInt8MultiArray \<Rightarrow> raw_data_pa \<Rightarrow> raw_data_pa" where
  "msgCallback msg n = saveToFile (msg_str msg) n"

text \<open>
  The name of the log file without its directory (lines 117 to 131), one stream
  operation after the other.
\<close>

definition log_filename :: "tm \<Rightarrow> string" where
  "log_filename time_struct = str (foldl (\<lambda>filename f. f filename) stringstream_init
     [set_width 4, set_fill CHR ''0'',
      put_int (tm_year time_struct + 1900),
      set_width 0, put_char CHR ''_'',
      set_width 2, set_fill CHR ''0'',
      put_int (tm_mon time_struct + 1),
      set_width 0, put_char CHR ''_'',
      set_width 2, set_fill CHR ''0'',
      put_int (tm_mday time_struct),
      set_width 0, put_char CHR ''_'',
      set_width 2, set_fill CHR ''0'',
      put_int (tm_hour time_struct),
      set_width 2, set_fill CHR ''0'',
      put_int (tm_min time_struct),
      set_width 0, put_string ''.log''])"

text \<open>
  \<open>initialize\<close> (lines 87 to 144), given the system calls, the local time and the
  file system. \<^verbatim>\<open>open\<close> does not throw, so the line after it always logs, and the
  handler of the \<^verbatim>\<open>try\<close> block is never entered.
\<close>

definition wire_channel :: "raw_data_pa \<Rightarrow> raw_data_pa" where
  "wire_channel n =
     (if is_ros_subscriber n then
        (RCLCPP_INFO ''Subscribing to raw data stream.'' [] n)\<lparr>raw_data_stream_sub := True\<rparr>
      else if flag_publish n then
        publishMsg [] (RCLCPP_INFO ''Publishing raw data stream.'' [] n)
      else n)"

definition open_log :: "os \<Rightarrow> tm \<Rightarrow> filesystem \<Rightarrow> raw_data_pa \<Rightarrow> filesystem \<times> raw_data_pa" where
  \<open>open_log sys time_struct fs n =
     (let n = (if last (file_dir n) \<noteq> CHR ''/'' then n\<lparr>file_dir := file_dir n @ ''/''\<rparr> else n);
          n = n\<lparr>file_name := file_dir n @ log_filename time_struct\<rparr>;
          (fs, f) = ofstream_open sys (file_name n) (fs, file_handle n);
          n = n\<lparr>file_handle := f\<rparr>
      in (fs, RCLCPP_INFO ''Logging raw data to file "%s"'' [file_name n] n))\<close>

definition initialize :: "os \<Rightarrow> tm \<Rightarrow> filesystem \<Rightarrow> raw_data_pa \<Rightarrow> filesystem \<times> raw_data_pa" where
  \<open>initialize sys time_struct fs n0 =
     (let n = wire_channel n0 in
      if file_dir n \<noteq> [] then
        (case os_stat sys fs (file_dir n) of
           None \<Rightarrow>
             (fs, RCLCPP_ERROR ''Can't log raw data to file. Directory "%s" does not exist.''
                    [file_dir n] n)
         | Some stat_info \<Rightarrow>
             if st_mode stat_info AND S_IFDIR \<noteq> S_IFDIR then
               (fs, RCLCPP_ERROR ''Can't log raw data to file. "%s" exists, but is not a directory.''
                      [file_dir n] n)
             else open_log sys time_struct fs n)
      else (fs, n))\<close>

subsection \<open>The life cycle of a session\<close>

text \<open>
  The nodes that the program can be in: a node is constructed, configured by
  \<open>getRosParams\<close>, wired by \<open>initialize\<close> and driven by the two callbacks.
  \<open>initialize\<close> is not called again once the file is open.
\<close>

inductive session :: "raw_data_pa \<Rightarrow> bool" where
  constructed: "RawDataStreamPa overrides sub = Inr n \<Longrightarrow> session n"
| configured: "session n \<Longrightarrow> getRosParams n = Inr n' \<Longrightarrow> session n'"
| initialized: "session n \<Longrightarrow> \<not> is_open (file_handle n) \<Longrightarrow>
    session (snd (initialize sys time_struct fs n))"
| local_capture: "session n \<Longrightarrow> ubloxCallback buf sz n = Inr n' \<Longrightarrow> session n'"
| channel_receive: "session n \<Longrightarrow> session (msgCallback msg n)"

subsection \<open>A configuration resolver that follows section 6 of the specification\<close>

text \<open>
  Section 6 of the specification gives \<^verbatim>\<open>dir\<close> to producer mode and
  \<^verbatim>\<open>raw_data_stream.dir\<close> and \<^verbatim>\<open>raw_data_stream.publish\<close> to relay mode. This is
  that reading, to be compared with \<open>getRosParams\<close>.
\<close>

definition getRosParams_section6 :: "raw_data_pa \<Rightarrow> failure + raw_data_pa" where
  "getRosParams_section6 n =
     (if \<not> is_ros_subscriber n then
        and_then (get_string_parameter n ''dir'') (\<lambda>d. Inr (n\<lparr>file_dir := d\<rparr>))
      else
        and_then (get_string_parameter n ''raw_data_stream.dir'') (\<lambda>d.
        and_then (get_bool_parameter n ''raw_data_stream.publish'') (\<lambda>b.
          Inr (n\<lparr>file_dir := d, flag_publish := b\<rparr>))))"

subsection \<open>A concrete machine for the examples\<close>

text \<open>
  A small file system: two directories (mode 040755), a regular file (mode 0100644) and a
  block device (mode 060660). \<open>example_os\<close> looks a path up as it is written and
  creates a file when the path up to the last slash is a directory.
\<close>

definition example_fs :: filesystem where
  "example_fs =
     [''/var/log/ublox'' \<mapsto> \<lparr>st_mode = 0x41ED\<rparr>,
      ''/var/log/relay'' \<mapsto> \<lparr>st_mode = 0x41ED\<rparr>,
      ''/etc/hostname'' \<mapsto> \<lparr>st_mode = 0x81A4\<rparr>,
      ''/dev/sda'' \<mapsto> \<lparr>st_mode = 0x61B0\<rparr>]"

definition dirname :: "string \<Rightarrow> string" where
  "dirname p = rev (tl (dropWhile (\<lambda>c. c \<noteq> CHR ''/'') (rev p)))"

definition example_os :: os where
  "example_os =
     \<lparr>os_stat = (\<lambda>fs p. fs p),
      os_open = (\<lambda>fs p.
        case fs (dirname p) of
          None \<Rightarrow> None
        | Some st \<Rightarrow>
            if S_ISDIR (st_mode st) then Some (fs(p \<mapsto> \<lparr>st_mode = 0x81A4\<rparr>)) else None)\<rparr>"

text \<open>The local time 2024-03-07 09:05.\<close>

definition example_time :: tm where
  "example_time = \<lparr>tm_min = 5, tm_hour = 9, tm_mday = 7, tm_mon = 2, tm_year = 124\<rparr>"

text \<open>
  The overrides of the examples, the node as its constructor leaves it (\<open>sub\<close> is the
  mode), the producer and the subscriber after \<open>getRosParams\<close>, and both after
  \<open>initialize\<close> at \<open>example_time\<close>.
\<close>

definition example_overrides :: "(string \<times> ParameterValue) list" where
  "example_overrides =
     [(''dir'', ParameterString ''/var/log/relay''),
      (''raw_data_stream.dir'', ParameterString ''/var/log/ublox''),
      (''raw_data_stream.publish'', ParameterBool True)]"

definition example_node :: "bool \<Rightarrow> raw_data_pa" where
  "example_node sub =
     \<lparr>flag_publish = False, is_ros_subscriber = sub, file_dir = [], file_name = [],
      file_handle = ofstream_init, raw_pub = [], raw_data_stream_sub = False,
      parameter_overrides = example_overrides,
      parameters =
        [(''raw_data_stream.publish'', ParameterBool True),
         (''raw_data_stream.dir'', ParameterString ''/var/log/ublox''),
         (''dir'', ParameterString ''/var/log/relay'')],
      logger = []\<rparr>"

definition example_producer :: raw_data_pa where
  "example_producer = (example_node False)\<lparr>file_dir := ''/var/log/ublox'', flag_publish := True\<rparr>"

definition example_subscriber :: raw_data_pa where
  "example_subscriber = (example_node True)\<lparr>file_dir := ''/var/log/relay''\<rparr>"

definition example_session :: raw_data_pa where
  "example_session = snd (initialize example_os example_time example_fs example_producer)"

definition example_relay_session :: raw_data_pa where
  "example_relay_session = snd (initialize example_os example_time example_fs example_subscriber)"

text \<open>
  A producer configured to log to the block device \<^verbatim>\<open>/dev/sda\<close>, after its
  constructor and \<open>getRosParams\<close>.
\<close>

definition example_blockdev :: raw_data_pa where
  "example_blockdev =
     \<lparr>flag_publish = False, is_ros_subscriber = False, file_dir = ''/dev/sda'', file_name = [],
      file_handle = ofstream_init, raw_pub = [], raw_data_stream_sub = False,
      parameter_overrides = [(''raw_data_stream.dir'', ParameterString ''/dev/sda'')],
      parameters =
        [(''raw_data_stream.publish'', ParameterBool False),
         (''raw_data_stream.dir'', ParameterString ''/dev/sda''),
         (''dir'', ParameterString [])],
      logger = []\<rparr>"

section \<open>Auxiliary facts\<close>

lemma char_of_uint8_of_char: "char_of_uint8 (uint8_of_char c) = c"
  by (simp add: char_of_uint8_def uint8_of_char_def unat_of_nat)

lemma uint8_of_char_of_uint8: "uint8_of_char (char_of_uint8 b) = b"
proof -
  have "unat b < 256" using unsigned_less [of b, where ?'a = nat] by simp
  then show ?thesis by (simp add: char_of_uint8_def uint8_of_char_def)
qed

lemma msg_str_data: "msg_str msg = map char_of_uint8 (data msg)"
  by (simp add: msg_str_def)

lemma data_str2uint8: "data (str2uint8 s) = map uint8_of_char s"
  by (simp add: str2uint8_def Let_def)

lemma layout_str2uint8:
  "layout (str2uint8 s) =
     \<lparr>dim = [\<lparr>label = ''raw_data_stream'', size_dim = of_nat (length s), stride = 1\<rparr>],
      data_offset = 0\<rparr>"
  by (simp add: str2uint8_def Let_def UInt8MultiArray_init_def MultiArrayDimension_init_def)

lemma and_then_Inr: "and_then r f = Inr y \<longleftrightarrow> (\<exists>x. r = Inr x \<and> f x = Inr y)"
  by (cases r) (simp_all add: and_then_def)

lemma declare_parameter_Inr:
  "declare_parameter name v n = Inr n' \<Longrightarrow> \<exists>ps. n' = n\<lparr>parameters := ps\<rparr>"
  by (auto simp: declare_parameter_def split: if_splits option.splits)

lemma RawDataStreamPa_Inr:
  assumes "RawDataStreamPa overrides sub = Inr n"
  shows "\<exists>ps. n = \<lparr>flag_publish = False, is_ros_subscriber = sub, file_dir = [],
           file_name = [], file_handle = ofstream_init, raw_pub = [],
           raw_data_stream_sub = False, parameter_overrides = overrides,
           parameters = ps, logger = []\<rparr>"
proof -
  from assms obtain n1 n2 where
    "declare_parameter ''dir'' (ParameterString [])
       \<lparr>flag_publish = False, is_ros_subscriber = sub, file_dir = [],
        file_name = [], file_handle = ofstream_init, raw_pub = [],
        raw_data_stream_sub = False, parameter_overrides = overrides,
        parameters = [], logger = []\<rparr> = Inr n1"
    and "declare_parameter ''raw_data_stream.dir'' (ParameterString []) n1 = Inr n2"
    and "declare_parameter ''raw_data_stream.publish'' (ParameterBool False) n2 = Inr n"
    unfolding RawDataStreamPa_def and_then_Inr by blast
  then show ?thesis
    by (auto dest!: declare_parameter_Inr)
qed

lemma RawDataStreamPa_fields:
  assumes "RawDataStreamPa overrides sub = Inr n"
  shows "flag_publish n = False" "is_ros_subscriber n = sub" "file_dir n = []"
    "file_name n = []" "file_handle n = ofstream_init" "raw_pub n = []"
    "raw_data_stream_sub n = False" "logger n = []"
  using RawDataStreamPa_Inr [OF assms] by auto

lemma getRosParams_fields:
  assumes "getRosParams n = Inr n'"
  shows "is_ros_subscriber n' = is_ros_subscriber n"
    "file_name n' = file_name n" "file_handle n' = file_handle n"
    "raw_pub n' = raw_pub n" "raw_data_stream_sub n' = raw_data_stream_sub n"
    "logger n' = logger n" "parameters n' = parameters n"
  using assms by (auto simp: getRosParams_def and_then_Inr split: if_splits)

lemma declare_parameter_value:
  assumes "declare_parameter name v n = Inr n'"
  shows "\<exists>v'. same_type v' v \<and> parameters n' = (name, v') # parameters n"
proof (cases "map_of (parameter_overrides n) name")
  case None
  with assms show ?thesis
    by (cases v) (auto simp: declare_parameter_def split: if_splits)
next
  case (Some a)
  with assms show ?thesis
    by (auto simp: declare_parameter_def split: if_splits)
qed

lemma same_type_String: "same_type v (ParameterString s) \<Longrightarrow> \<exists>s'. v = ParameterString s'"
  by (cases v) simp_all

lemma same_type_Bool: "same_type v (ParameterBool b) \<Longrightarrow> \<exists>b'. v = ParameterBool b'"
  by (cases v) simp_all

lemma RawDataStreamPa_parameters:
  assumes "RawDataStreamPa overrides sub = Inr n"
  shows "\<exists>b d r. parameters n =
     [(''raw_data_stream.publish'', ParameterBool b),
      (''raw_data_stream.dir'', ParameterString r),
      (''dir'', ParameterString d)]"
proof -
  from assms obtain n1 n2 where
    1: "declare_parameter ''dir'' (ParameterString [])
       \<lparr>flag_publish = False, is_ros_subscriber = sub, file_dir = [],
        file_name = [], file_handle = ofstream_init, raw_pub = [],
        raw_data_stream_sub = False, parameter_overrides = overrides,
        parameters = [], logger = []\<rparr> = Inr n1"
    and 2: "declare_parameter ''raw_data_stream.dir'' (ParameterString []) n1 = Inr n2"
    and 3: "declare_parameter ''raw_data_stream.publish'' (ParameterBool False) n2 = Inr n"
    unfolding RawDataStreamPa_def and_then_Inr by blast
  from declare_parameter_value [OF 1] obtain d where "parameters n1 = [(''dir'', ParameterString d)]"
    by (auto dest: same_type_String)
  moreover from declare_parameter_value [OF 2] obtain r
    where "parameters n2 = (''raw_data_stream.dir'', ParameterString r) # parameters n1"
    by (auto dest: same_type_String)
  moreover from declare_parameter_value [OF 3] obtain b
    where "parameters n = (''raw_data_stream.publish'', ParameterBool b) # parameters n2"
    by (auto dest: same_type_Bool)
  ultimately show ?thesis by simp
qed

lemma RawDataStreamPa_returns:
  assumes "\<forall>v. map_of overrides ''dir'' = Some v \<longrightarrow> same_type v (ParameterString [])"
    and "\<forall>v. map_of overrides ''raw_data_stream.dir'' = Some v \<longrightarrow> same_type v (ParameterString [])"
    and "\<forall>v. map_of overrides ''raw_data_stream.publish'' = Some v \<longrightarrow> same_type v (ParameterBool False)"
  shows "\<exists>n. RawDataStreamPa overrides sub = Inr n"
  using assms
  by (auto simp: RawDataStreamPa_def and_then_def declare_parameter_def split: option.splits)

lemma file_handle_wire_channel: "file_handle (wire_channel n) = file_handle n"
  by (simp add: wire_channel_def publishMsg_def RCLCPP_INFO_def)

lemma file_dir_wire_channel: "file_dir (wire_channel n) = file_dir n"
  by (simp add: wire_channel_def publishMsg_def RCLCPP_INFO_def)

lemma file_handle_open_log:
  "file_handle (snd (open_log sys t fs n)) = snd (ofstream_open sys (file_name (snd (open_log sys t fs n))) (fs, file_handle n))"
  by (simp add: open_log_def Let_def RCLCPP_INFO_def split: prod.splits)

lemma ofstream_open_closed:
  "rdbuf f = None \<Longrightarrow> is_open (snd (ofstream_open sys p (fs, f))) \<Longrightarrow>
     snd (ofstream_open sys p (fs, f)) = \<lparr>rdbuf = Some p, failbit = False, written = []\<rparr> "
  by (cases f) (auto simp: ofstream_open_def is_open_def split: option.splits)

lemma file_handle_initialize:
  "file_handle (snd (initialize sys t fs n)) = file_handle n \<or>
   file_handle (snd (initialize sys t fs n)) =
     snd (ofstream_open sys (file_name (snd (initialize sys t fs n))) (fs, file_handle n))"
  by (auto simp: initialize_def Let_def RCLCPP_ERROR_def file_handle_wire_channel file_handle_open_log
      split: option.splits)

lemma ofstream_write_good:
  "is_open f \<Longrightarrow> \<not> failbit f \<Longrightarrow> ofstream_write s f = f\<lparr>written := written f @ s\<rparr>"
  by (auto simp: ofstream_write_def is_open_def)

lemma ofstream_write_keeps:
  "is_open f \<Longrightarrow> rdbuf (ofstream_write s f) = rdbuf f \<and> failbit (ofstream_write s f) = failbit f"
  by (auto simp: ofstream_write_def is_open_def)

lemma saveToFile_closed: "\<not> is_open (file_handle n) \<Longrightarrow> saveToFile s n = n"
  by (simp add: saveToFile_def)

lemma saveToFile_good:
  "is_open (file_handle n) \<Longrightarrow> \<not> failbit (file_handle n) \<Longrightarrow>
     saveToFile s n = n\<lparr>file_handle := (file_handle n)\<lparr>written := written (file_handle n) @ s\<rparr>\<rparr>"
  by (simp add: saveToFile_def ofstream_write_good)

lemma saveToFile_keeps:
  "rdbuf (file_handle (saveToFile s n)) = rdbuf (file_handle n) \<and>
   failbit (file_handle (saveToFile s n)) = failbit (file_handle n)"
  by (simp add: saveToFile_def ofstream_write_keeps)

lemma ubloxCallback_keeps:
  "ubloxCallback buf sz n = Inr n' \<Longrightarrow>
     rdbuf (file_handle n') = rdbuf (file_handle n) \<and>
     failbit (file_handle n') = failbit (file_handle n)"
  by (auto simp: ubloxCallback_def Let_def saveToFile_keeps publishMsg_def split: if_splits)

lemma initialize_good:
  assumes "rdbuf (file_handle n) = None" and "is_open (file_handle (snd (initialize sys t fs n)))"
  shows "\<not> failbit (file_handle (snd (initialize sys t fs n)))"
  using file_handle_initialize [of sys t fs n]
proof
  assume "file_handle (snd (initialize sys t fs n)) = file_handle n"
  with assms show ?thesis by (simp add: is_open_def)
next
  assume *: "file_handle (snd (initialize sys t fs n)) =
     snd (ofstream_open sys (file_name (snd (initialize sys t fs n))) (fs, file_handle n))"
  with assms ofstream_open_closed [of "file_handle n" sys "file_name (snd (initialize sys t fs n))" fs]
  show ?thesis by simp
qed

lemma session_good: "session n \<Longrightarrow> is_open (file_handle n) \<Longrightarrow> \<not> failbit (file_handle n)"
proof (induction rule: session.induct)
  case (constructed overrides sub n)
  then show ?case by (simp add: RawDataStreamPa_fields is_open_def ofstream_init_def)
next
  case (configured n n')
  then show ?case by (simp add: getRosParams_fields)
next
  case (initialized n sys time_struct fs)
  then show ?case
    by (intro initialize_good) (simp_all add: is_open_def)
next
  case (local_capture n buf sz n')
  then show ?case by (simp add: ubloxCallback_keeps is_open_def)
next
  case (channel_receive n msg)
  then show ?case by (simp add: msgCallback_def saveToFile_keeps is_open_def)
qed

lemma saveToFile_session:
  assumes "session n"
  shows "saveToFile s n =
     n\<lparr>file_handle := (file_handle n)
         \<lparr>written := written (file_handle n) @ (if is_open (file_handle n) then s else [])\<rparr>\<rparr>"
proof (cases "is_open (file_handle n)")
  case True
  with session_good [OF assms] show ?thesis by (simp add: saveToFile_good)
next
  case False
  then show ?thesis by (simp add: saveToFile_closed)
qed

lemma foldl_saveToFile:
  "is_open (file_handle n) \<Longrightarrow> \<not> failbit (file_handle n) \<Longrightarrow>
     foldl (\<lambda>m c. saveToFile c m) n chunks =
       n\<lparr>file_handle := (file_handle n)\<lparr>written := written (file_handle n) @ concat chunks\<rparr>\<rparr>"
proof (induction chunks arbitrary: n)
  case Nil
  then show ?case by simp
next
  case (Cons c chunks)
  have "is_open (file_handle (saveToFile c n))" "\<not> failbit (file_handle (saveToFile c n))"
    using Cons.prems by (simp_all add: saveToFile_keeps is_open_def)
  from Cons.IH [OF this] Cons.prems show ?case
    by (simp add: saveToFile_good)
qed

lemma initialize_opened:
  assumes "\<not> is_open (file_handle n0)" and "is_open (file_handle (snd (initialize sys t fs n0)))"
  shows "file_handle (snd (initialize sys t fs n0)) =
     \<lparr>rdbuf = Some (file_name (snd (initialize sys t fs n0))), failbit = False, written = []\<rparr>"
proof -
  have closed: "rdbuf (file_handle n0) = None"
    using assms(1) by (simp add: is_open_def)
  from file_handle_initialize [of sys t fs n0] show ?thesis
  proof
    assume "file_handle (snd (initialize sys t fs n0)) = file_handle n0"
    with assms(2) closed show ?thesis by (simp add: is_open_def)
  next
    assume "file_handle (snd (initialize sys t fs n0)) =
      snd (ofstream_open sys (file_name (snd (initialize sys t fs n0))) (fs, file_handle n0))"
    with assms(2) ofstream_open_closed [OF closed, of sys "file_name (snd (initialize sys t fs n0))" fs]
    show ?thesis by simp
  qed
qed

lemma wire_channel_keeps:
  "file_dir (wire_channel n) = file_dir n \<and> file_name (wire_channel n) = file_name n \<and>
   file_handle (wire_channel n) = file_handle n"
  by (simp add: wire_channel_def publishMsg_def RCLCPP_INFO_def)

lemma log_filename_0905:
  assumes "tm_year t = 124" "tm_mon t = 2" "tm_mday t = 7" "tm_hour t = 9" "tm_min t = 5"
  shows "log_filename t = ''2024_03_07_0905.log''"
  using assms
  by (simp add: log_filename_def put_int_def put_char_def put_string_def
      set_width_def set_fill_def show_int_def stringstream_init_def)

lemma initialize_rejects:
  assumes "file_dir n \<noteq> []"
    and "os_stat sys fs (file_dir n) = None \<or>
         (\<exists>stat_info. os_stat sys fs (file_dir n) = Some stat_info \<and>
            st_mode stat_info AND S_IFDIR \<noteq> S_IFDIR)"
  shows "\<exists>fmt. initialize sys t fs n =
     (fs, (wire_channel n)\<lparr>logger := logger (wire_channel n) @ [(ERROR, fmt, [file_dir n])]\<rparr>)"
  using assms
  by (auto simp: initialize_def Let_def wire_channel_keeps RCLCPP_ERROR_def)

lemma parameters_initialize: "parameters (snd (initialize sys t fs n)) = parameters n"
  by (simp add: initialize_def open_log_def wire_channel_def publishMsg_def Let_def
      RCLCPP_INFO_def RCLCPP_ERROR_def split: option.splits prod.splits)

lemma parameters_ubloxCallback: "ubloxCallback buf sz n = Inr n' \<Longrightarrow> parameters n' = parameters n"
  by (auto simp: ubloxCallback_def Let_def publishMsg_def saveToFile_def split: if_splits)

lemma parameters_msgCallback: "parameters (msgCallback msg n) = parameters n"
  by (simp add: msgCallback_def saveToFile_def)

text \<open>In a session \<open>getRosParams\<close> returns: the constructor has declared what it reads.\<close>

lemma getRosParams_returns:
  assumes "session n"
  shows "\<exists>n'. getRosParams n = Inr n'"
proof -
  have "\<exists>b d r. parameters n =
     [(''raw_data_stream.publish'', ParameterBool b),
      (''raw_data_stream.dir'', ParameterString r),
      (''dir'', ParameterString d)]"
    using assms
    by (induction rule: session.induct)
       (simp_all add: RawDataStreamPa_parameters getRosParams_fields parameters_initialize
          parameters_ubloxCallback parameters_msgCallback)
  then show ?thesis
    by (auto simp: getRosParams_def and_then_def get_string_parameter_def get_bool_parameter_def)
qed

text \<open>
  The test of \<open>initialize\<close> looks at one bit. The types of block devices and sockets
  contain it, the type of regular files does not.
\<close>

lemma S_IFDIR_bit:
  "S_IFBLK AND S_IFDIR = S_IFDIR \<and> \<not> S_ISDIR S_IFBLK \<and>
   S_IFSOCK AND S_IFDIR = S_IFDIR \<and> \<not> S_ISDIR S_IFSOCK \<and>
   S_IFREG AND S_IFDIR \<noteq> S_IFDIR \<and> \<not> S_ISDIR S_IFREG \<and> S_ISDIR S_IFDIR"
  by (simp add: S_IFBLK_def S_IFSOCK_def S_IFREG_def S_IFDIR_def S_IFMT_def S_ISDIR_def)

text \<open>
  Once the test is passed, \<open>initialize\<close> logs one more line, at level INFO, whether the
  file could be opened or not.
\<close>

lemma initialize_accepts:
  assumes "file_dir n \<noteq> []" and "os_stat sys fs (file_dir n) = Some stat_info"
    and "st_mode stat_info AND S_IFDIR = S_IFDIR"
  shows \<open>logger (snd (initialize sys t fs n)) =
     logger (wire_channel n) @
       [(INFO, ''Logging raw data to file "%s"'', [file_name (snd (initialize sys t fs n))])]\<close>
  using assms
  by (auto simp: initialize_def open_log_def Let_def wire_channel_keeps RCLCPP_INFO_def
      split: prod.splits)

subsection \<open>The examples\<close>

lemma example_node_constructed: "RawDataStreamPa example_overrides sub = Inr (example_node sub)"
  by (simp add: RawDataStreamPa_def example_overrides_def example_node_def
      declare_parameter_def and_then_def)

lemma example_producer_configured: "getRosParams (example_node False) = Inr example_producer"
  by (simp add: getRosParams_def example_node_def example_producer_def and_then_def
      get_string_parameter_def get_bool_parameter_def)

lemma example_subscriber_configured: "getRosParams (example_node True) = Inr example_subscriber"
  by (simp add: getRosParams_def example_node_def example_subscriber_def and_then_def
      get_string_parameter_def)

lemma session_example_producer: "session example_producer"
  using example_node_constructed example_producer_configured
  by (blast intro: session.intros)

lemma session_example_subscriber: "session example_subscriber"
  using example_node_constructed example_subscriber_configured
  by (blast intro: session.intros)

lemma session_example_session: "session example_session"
  unfolding example_session_def
  by (rule session.initialized [OF session_example_producer])
     (simp add: example_producer_def example_node_def is_open_def ofstream_init_def)

lemma session_example_relay_session: "session example_relay_session"
  unfolding example_relay_session_def
  by (rule session.initialized [OF session_example_subscriber])
     (simp add: example_subscriber_def example_node_def is_open_def ofstream_init_def)

lemma log_filename_example: "log_filename example_time = ''2024_03_07_0905.log''"
  by (simp add: log_filename_def example_time_def put_int_def put_char_def put_string_def
      set_width_def set_fill_def show_int_def stringstream_init_def)

lemma example_session_eq:
  \<open>example_session =
     example_producer
       \<lparr>file_dir := ''/var/log/ublox/'',
        file_name := ''/var/log/ublox/2024_03_07_0905.log'',
        file_handle := \<lparr>rdbuf = Some ''/var/log/ublox/2024_03_07_0905.log'', failbit = False, written = []\<rparr>,
        raw_pub := [str2uint8 []],
        logger := [(INFO, ''Publishing raw data stream.'', []),
                   (INFO, ''Logging raw data to file "%s"'', [''/var/log/ublox/2024_03_07_0905.log''])]\<rparr>\<close>
  by (simp add: example_session_def initialize_def wire_channel_def open_log_def Let_def
      example_producer_def example_node_def publishMsg_def RCLCPP_INFO_def
      example_os_def example_fs_def S_IFDIR_def S_IFMT_def S_ISDIR_def dirname_def
      log_filename_example ofstream_open_def ofstream_init_def)

lemma example_relay_session_eq:
  \<open>example_relay_session =
     example_subscriber
       \<lparr>file_dir := ''/var/log/relay/'',
        file_name := ''/var/log/relay/2024_03_07_0905.log'',
        file_handle := \<lparr>rdbuf = Some ''/var/log/relay/2024_03_07_0905.log'', failbit = False, written = []\<rparr>,
        raw_data_stream_sub := True,
        logger := [(INFO, ''Subscribing to raw data stream.'', []),
                   (INFO, ''Logging raw data to file "%s"'', [''/var/log/relay/2024_03_07_0905.log''])]\<rparr>\<close>
  by (simp add: example_relay_session_def initialize_def wire_channel_def open_log_def Let_def
      example_subscriber_def example_node_def publishMsg_def RCLCPP_INFO_def
      example_os_def example_fs_def S_IFDIR_def S_IFMT_def S_ISDIR_def dirname_def
      log_filename_example ofstream_open_def ofstream_init_def)

lemma example_chunk: "map char_of_uint8 (take 3 [1, 2, 3]) = [CHR 0x01, CHR 0x02, CHR 0x03]"
proof -
  have "take 3 [1, 2, 3 :: uint8] = map uint8_of_char [CHR 0x01, CHR 0x02, CHR 0x03]"
    by (simp add: uint8_of_char_def)
  then show ?thesis
    by (simp only: list.map char_of_uint8_of_char)
qed

lemma example_hello: "map char_of_uint8 [104, 101, 108, 108, 111] = ''hello''"
proof -
  have "[104, 101, 108, 108, 111 :: uint8] = map uint8_of_char ''hello''"
    by (simp add: uint8_of_char_def)
  then show ?thesis
    by (simp only: list.map char_of_uint8_of_char)
qed

section \<open>Configuration\<close>

text \<open>
  C1: in producer mode (\<open>is_ros_subscriber\<close> false) \<open>isEnabled\<close> holds exactly when the
  publish flag is set or the log directory is not empty; in relay mode
  (\<open>is_ros_subscriber\<close> true) it holds exactly when the log directory is not empty,
  whatever the publish flag is.
\<close>

theorem isEnabled_modes:
  "(\<not> is_ros_subscriber n \<longrightarrow> isEnabled n = (flag_publish n \<or> file_dir n \<noteq> [])) \<and>
   (is_ros_subscriber n \<longrightarrow>
      isEnabled n = (file_dir n \<noteq> []) \<and> isEnabled (n\<lparr>flag_publish := b\<rparr>) = isEnabled n)"
  by (simp add: isEnabled_def)

theorem isEnabled_modes_witness:
  "\<not> is_ros_subscriber example_producer \<and>
   isEnabled example_producer = (flag_publish example_producer \<or> file_dir example_producer \<noteq> []) \<and>
   is_ros_subscriber example_subscriber \<and>
   isEnabled example_subscriber = (file_dir example_subscriber \<noteq> []) \<and>
   isEnabled (example_subscriber\<lparr>flag_publish := True\<rparr>) = isEnabled example_subscriber"
  using isEnabled_modes [of example_producer] isEnabled_modes [of example_subscriber True]
  by (simp add: example_producer_def example_subscriber_def example_node_def)

text \<open>
  C2, as the specification states it, gives \<^verbatim>\<open>dir\<close> to producer mode and
  \<^verbatim>\<open>raw_data_stream.dir\<close> and \<^verbatim>\<open>raw_data_stream.publish\<close> to relay mode. The program
  has the modes the other way round. With all three parameters overridden, the producer
  takes its directory from \<^verbatim>\<open>raw_data_stream.dir\<close> (not from \<^verbatim>\<open>dir\<close>) and its
  publish flag from \<^verbatim>\<open>raw_data_stream.publish\<close>, and the subscriber takes its
  directory from \<^verbatim>\<open>dir\<close> and leaves the publish flag false.
\<close>

theorem getRosParams_section6_counterexample:
  "RawDataStreamPa example_overrides False = Inr (example_node False) \<and>
   get_string_parameter (example_node False) ''dir'' = Inr ''/var/log/relay'' \<and>
   getRosParams (example_node False) =
     Inr ((example_node False)\<lparr>file_dir := ''/var/log/ublox'', flag_publish := True\<rparr>) \<and>
   getRosParams_section6 (example_node False) =
     Inr ((example_node False)\<lparr>file_dir := ''/var/log/relay''\<rparr>) \<and>
   RawDataStreamPa example_overrides True = Inr (example_node True) \<and>
   get_string_parameter (example_node True) ''raw_data_stream.dir'' = Inr ''/var/log/ublox'' \<and>
   get_bool_parameter (example_node True) ''raw_data_stream.publish'' = Inr True \<and>
   getRosParams (example_node True) =
     Inr ((example_node True)\<lparr>file_dir := ''/var/log/relay''\<rparr>) \<and>
   getRosParams_section6 (example_node True) =
     Inr ((example_node True)\<lparr>file_dir := ''/var/log/ublox'', flag_publish := True\<rparr>) \<and>
   getRosParams (example_node False) \<noteq> getRosParams_section6 (example_node False) \<and>
   getRosParams (example_node True) \<noteq> getRosParams_section6 (example_node True)"
  by (simp add: example_node_constructed)
     (simp add: getRosParams_def getRosParams_section6_def example_node_def and_then_def
      get_string_parameter_def get_bool_parameter_def)

text \<open>
  C2, amended: in relay mode \<open>getRosParams\<close> reads \<^verbatim>\<open>dir\<close> as the log directory and
  nothing else, and the publish flag keeps its value; in producer mode it reads
  \<^verbatim>\<open>raw_data_stream.dir\<close> as the log directory and the boolean
  \<^verbatim>\<open>raw_data_stream.publish\<close> as the publish flag, and nothing else.
\<close>

theorem getRosParams_modes:
  assumes "getRosParams n = Inr n'"
  shows "(is_ros_subscriber n \<longrightarrow>
            get_string_parameter n ''dir'' = Inr (file_dir n') \<and>
            flag_publish n' = flag_publish n \<and>
            (\<forall>ps. map_of ps ''dir'' = map_of (parameters n) ''dir'' \<longrightarrow>
               getRosParams (n\<lparr>parameters := ps\<rparr>) = Inr (n'\<lparr>parameters := ps\<rparr>))) \<and>
         (\<not> is_ros_subscriber n \<longrightarrow>
            get_string_parameter n ''raw_data_stream.dir'' = Inr (file_dir n') \<and>
            get_bool_parameter n ''raw_data_stream.publish'' = Inr (flag_publish n') \<and>
            (\<forall>ps. map_of ps ''raw_data_stream.dir'' = map_of (parameters n) ''raw_data_stream.dir'' \<and>
                  map_of ps ''raw_data_stream.publish'' = map_of (parameters n) ''raw_data_stream.publish'' \<longrightarrow>
               getRosParams (n\<lparr>parameters := ps\<rparr>) = Inr (n'\<lparr>parameters := ps\<rparr>)))"
  using assms
  by (auto simp: getRosParams_def and_then_Inr get_string_parameter_def get_bool_parameter_def
      split: if_splits option.splits ParameterValue.splits)

theorem getRosParams_modes_witness:
  "getRosParams (example_node True) = Inr example_subscriber \<and>
   is_ros_subscriber (example_node True) \<and>
   get_string_parameter (example_node True) ''dir'' = Inr (file_dir example_subscriber) \<and>
   file_dir example_subscriber = ''/var/log/relay'' \<and>
   flag_publish example_subscriber = flag_publish (example_node True) \<and>
   getRosParams ((example_node True)\<lparr>parameters := [(''dir'', ParameterString ''/var/log/relay'')]\<rparr>) =
     Inr (example_subscriber\<lparr>parameters := [(''dir'', ParameterString ''/var/log/relay'')]\<rparr>) \<and>
   getRosParams (example_node False) = Inr example_producer \<and>
   \<not> is_ros_subscriber (example_node False) \<and>
   get_string_parameter (example_node False) ''raw_data_stream.dir'' = Inr (file_dir example_producer) \<and>
   file_dir example_producer = ''/var/log/ublox'' \<and>
   get_bool_parameter (example_node False) ''raw_data_stream.publish'' = Inr (flag_publish example_producer) \<and>
   flag_publish example_producer"
proof -
  have sub: "is_ros_subscriber (example_node True)" and pro: "\<not> is_ros_subscriber (example_node False)"
    by (simp_all add: example_node_def)
  have ps: "map_of [(''dir'', ParameterString ''/var/log/relay'')] ''dir'' =
      map_of (parameters (example_node True)) ''dir''"
    by (simp add: example_node_def)
  from getRosParams_modes [OF example_subscriber_configured] sub ps
  have 1: "get_string_parameter (example_node True) ''dir'' = Inr (file_dir example_subscriber)"
    "flag_publish example_subscriber = flag_publish (example_node True)"
    "getRosParams ((example_node True)\<lparr>parameters := [(''dir'', ParameterString ''/var/log/relay'')]\<rparr>) =
     Inr (example_subscriber\<lparr>parameters := [(''dir'', ParameterString ''/var/log/relay'')]\<rparr>)"
    by blast+
  from getRosParams_modes [OF example_producer_configured] pro
  have 2: "get_string_parameter (example_node False) ''raw_data_stream.dir'' = Inr (file_dir example_producer)"
    "get_bool_parameter (example_node False) ''raw_data_stream.publish'' = Inr (flag_publish example_producer)"
    by blast+
  show ?thesis
    using 1 2 sub pro example_subscriber_configured example_producer_configured
    by (simp add: example_subscriber_def example_producer_def)
qed

section \<open>Encoding a chunk for the channel\<close>

text \<open>
  C3: for every byte sequence \<open>s\<close>, the empty one included, the data bytes of
  \<open>str2uint8 s\<close> read in order give back exactly \<open>s\<close>, with the same length; this is
  also what \<open>msgCallback\<close> reads out of the message. The one dimension of the message
  carries the length (as a 32-bit number). The empty sequence is encoded as a message
  with no data bytes whose dimension has size 0.
\<close>

theorem str2uint8_round_trip:
  "map char_of_uint8 (data (str2uint8 s)) = s \<and>
   msg_str (str2uint8 s) = s \<and>
   length (data (str2uint8 s)) = length s \<and>
   map size_dim (dim (layout (str2uint8 s))) = [of_nat (length s)] \<and>
   data (str2uint8 []) = [] \<and>
   map size_dim (dim (layout (str2uint8 []))) = [0]"
  by (simp add: msg_str_data data_str2uint8 layout_str2uint8 comp_def char_of_uint8_of_char)


section \<open>Dispatching chunks\<close>

text \<open>
  C4: in a session, \<open>ubloxCallback\<close> with a buffer of at least \<open>sz\<close> bytes returns, and
  its chunk is exactly the first \<open>sz\<close> bytes of the buffer. The chunk is encoded and
  published exactly when the publish flag is set, and it is appended to the bytes
  written to the file exactly when the file is open. Nothing else of the node changes.
  When no file is open, the write is a no-op: \<open>saveToFile\<close> returns the node as it is.
\<close>

theorem ubloxCallback_dispatch:
  assumes "session n" and "sz \<le> length buf" and "chunk = map char_of_uint8 (take sz buf)"
  shows "ubloxCallback buf sz n = Inr (n
       \<lparr>raw_pub := raw_pub n @ (if flag_publish n then [str2uint8 chunk] else []),
        file_handle := (file_handle n)
          \<lparr>written := written (file_handle n) @ (if is_open (file_handle n) then chunk else [])\<rparr>\<rparr>) \<and>
     length chunk = sz \<and>
     map uint8_of_char chunk = take sz buf \<and>
     (\<not> is_open (file_handle n) \<longrightarrow> saveToFile chunk n = n)"
proof -
  have good: "is_open (file_handle n) \<Longrightarrow> \<not> failbit (file_handle n)"
    using assms(1) by (rule session_good)
  have len: "length chunk = sz" and bytes: "map uint8_of_char chunk = take sz buf"
    using assms(2,3) by (simp_all add: comp_def uint8_of_char_of_uint8)
  show ?thesis
  proof (cases "is_open (file_handle n)")
    case True
    with good have "\<not> failbit (file_handle n)" by simp
    with True len bytes assms(2) show ?thesis
      by (simp add: ubloxCallback_def Let_def assms(3) [symmetric] publishMsg_def saveToFile_good)
  next
    case False
    with len bytes assms(2) show ?thesis
      by (simp add: ubloxCallback_def Let_def assms(3) [symmetric] publishMsg_def saveToFile_closed)
  qed
qed

theorem ubloxCallback_dispatch_witness:
  "session example_session \<and> flag_publish example_session \<and>
   is_open (file_handle example_session) \<and>
   raw_pub example_session = [str2uint8 []] \<and>
   ubloxCallback [1, 2, 3] 3 example_session = Inr (example_session
     \<lparr>raw_pub := [str2uint8 [], str2uint8 [CHR 0x01, CHR 0x02, CHR 0x03]],
      file_handle := \<lparr>rdbuf = Some ''/var/log/ublox/2024_03_07_0905.log'', failbit = False,
                       written = [CHR 0x01, CHR 0x02, CHR 0x03]\<rparr>\<rparr>) \<and>
   data (str2uint8 [CHR 0x01, CHR 0x02, CHR 0x03]) = [1, 2, 3]"
proof -
  have "(3::nat) \<le> length [1, 2, 3 :: uint8]" by simp
  from ubloxCallback_dispatch [OF session_example_session this example_chunk [symmetric]]
  have "ubloxCallback [1, 2, 3] 3 example_session = Inr (example_session
       \<lparr>raw_pub := raw_pub example_session @
          (if flag_publish example_session then [str2uint8 [CHR 0x01, CHR 0x02, CHR 0x03]] else []),
        file_handle := (file_handle example_session)
          \<lparr>written := written (file_handle example_session) @
             (if is_open (file_handle example_session) then [CHR 0x01, CHR 0x02, CHR 0x03] else [])\<rparr>\<rparr>)"
    and "map uint8_of_char [CHR 0x01, CHR 0x02, CHR 0x03] = take 3 [1, 2, 3]"
    by blast+
  then show ?thesis
    using session_example_session
    by (simp add: example_session_eq example_producer_def example_node_def is_open_def
        data_str2uint8)
qed

text \<open>
  C5: \<open>msgCallback\<close> hands the data bytes of the message, in order, to \<open>saveToFile\<close>
  and does nothing else: nothing is published, nothing is logged, and the publish flag
  has no influence. In a session the bytes are appended to the file when it is open,
  and nothing else of the node changes. This holds in every mode, relay mode included.
\<close>

theorem msgCallback_routes_to_file:
  "msgCallback msg n = saveToFile (map char_of_uint8 (data msg)) n \<and>
   raw_pub (msgCallback msg n) = raw_pub n \<and>
   logger (msgCallback msg n) = logger n \<and>
   msgCallback msg (n\<lparr>flag_publish := b\<rparr>) = (msgCallback msg n)\<lparr>flag_publish := b\<rparr> \<and>
   (session n \<longrightarrow>
      msgCallback msg n = n\<lparr>file_handle := (file_handle n)
        \<lparr>written := written (file_handle n) @
           (if is_open (file_handle n) then map char_of_uint8 (data msg) else [])\<rparr>\<rparr>)"
  by (auto simp: msgCallback_def msg_str_data saveToFile_session) (simp_all add: saveToFile_def)

theorem msgCallback_routes_to_file_witness:
  "session example_relay_session \<and> is_open (file_handle example_relay_session) \<and>
   msgCallback (str2uint8 ''abc'') example_relay_session = example_relay_session
     \<lparr>file_handle := \<lparr>rdbuf = Some ''/var/log/relay/2024_03_07_0905.log'', failbit = False,
                       written = ''abc''\<rparr>\<rparr> \<and>
   raw_pub (msgCallback (str2uint8 ''abc'') example_relay_session) = []"
proof -
  from msgCallback_routes_to_file [of "str2uint8 ''abc''" example_relay_session]
    session_example_relay_session
  have "msgCallback (str2uint8 ''abc'') example_relay_session = example_relay_session
     \<lparr>file_handle := (file_handle example_relay_session)
        \<lparr>written := written (file_handle example_relay_session) @
           (if is_open (file_handle example_relay_session)
            then map char_of_uint8 (data (str2uint8 ''abc'')) else [])\<rparr>\<rparr>"
    by blast
  moreover have "map char_of_uint8 (data (str2uint8 ''abc'')) = ''abc''"
    by (simp only: data_str2uint8 list.map char_of_uint8_of_char)
  ultimately show ?thesis
    using session_example_relay_session
    by (simp add: example_relay_session_eq example_subscriber_def example_node_def is_open_def)
qed

text \<open>
  C10: the string that \<open>msgCallback\<close> hands to \<open>saveToFile\<close> is the data of the message,
  byte for byte and in order, so it has exactly as many bytes as the data. The layout of
  the message (offset, dimensions with their size, stride and label) has no influence
  on it: replacing the layout by any other, an empty or inconsistent one included,
  gives the same result. In a session with the file open, the bytes appended to the
  file are the data bytes, whatever the layout says.
\<close>

theorem msgCallback_ignores_layout:
  "msg_str msg = map char_of_uint8 (data msg) \<and>
   map uint8_of_char (msg_str msg) = data msg \<and>
   length (msg_str msg) = length (data msg) \<and>
   msg_str (msg\<lparr>layout := l\<rparr>) = msg_str msg \<and>
   msgCallback msg n = saveToFile (map char_of_uint8 (data msg)) n \<and>
   msgCallback (msg\<lparr>layout := l\<rparr>) n = msgCallback msg n \<and>
   (session n \<and> is_open (file_handle n) \<longrightarrow>
      written (file_handle (msgCallback msg n)) =
        written (file_handle n) @ map char_of_uint8 (data msg) \<and>
      written (file_handle (msgCallback (msg\<lparr>layout := l\<rparr>) n)) =
        written (file_handle n) @ map char_of_uint8 (data msg) \<and>
      length (written (file_handle (msgCallback msg n))) =
        length (written (file_handle n)) + length (data msg))"
  by (simp add: msgCallback_def msg_str_data saveToFile_session comp_def uint8_of_char_of_uint8)

theorem msgCallback_ignores_layout_witness:
  "session example_relay_session \<and> is_open (file_handle example_relay_session) \<and>
   written (file_handle example_relay_session) = [] \<and>
   written (file_handle (msgCallback
     \<lparr>layout = \<lparr>dim = [], data_offset = 7\<rparr>, data = [104, 101, 108, 108, 111]\<rparr>
     example_relay_session)) = ''hello'' \<and>
   length (written (file_handle (msgCallback
     \<lparr>layout = \<lparr>dim = [], data_offset = 7\<rparr>, data = [104, 101, 108, 108, 111]\<rparr>
     example_relay_session))) = 5"
proof -
  have s: "session example_relay_session \<and> is_open (file_handle example_relay_session)"
    using session_example_relay_session
    by (simp add: example_relay_session_eq is_open_def)
  from msgCallback_ignores_layout [of
      "\<lparr>layout = \<lparr>dim = [], data_offset = 7\<rparr>, data = [104, 101, 108, 108, 111]\<rparr>" _
      example_relay_session] s
  have "written (file_handle (msgCallback
     \<lparr>layout = \<lparr>dim = [], data_offset = 7\<rparr>, data = [104, 101, 108, 108, 111]\<rparr>
     example_relay_session)) =
     written (file_handle example_relay_session) @
       map char_of_uint8 (data \<lparr>layout = \<lparr>dim = [], data_offset = 7\<rparr>,
                                data = [104, 101, 108, 108, 111]\<rparr>)"
    by blast
  moreover have "written (file_handle example_relay_session) = []"
    by (simp add: example_relay_session_eq)
  ultimately show ?thesis
    using s example_hello by simp
qed

text \<open>
  C9: a node that has just been constructed has the publish flag false, the directory
  empty and no file open; nothing has been published, written or logged. Both
  callbacks leave such a node exactly as it is.
\<close>

theorem constructed_node_idle:
  assumes "RawDataStreamPa overrides sub = Inr n"
  shows "\<not> flag_publish n \<and> file_dir n = [] \<and> \<not> is_open (file_handle n) \<and>
     raw_pub n = [] \<and> written (file_handle n) = [] \<and> logger n = [] \<and>
     (\<forall>buf sz. sz \<le> length buf \<longrightarrow> ubloxCallback buf sz n = Inr n) \<and>
     (\<forall>msg. msgCallback msg n = n)"
  using RawDataStreamPa_fields [OF assms]
  by (simp add: ubloxCallback_def msgCallback_def saveToFile_def is_open_def ofstream_init_def)

theorem constructed_node_idle_witness:
  "RawDataStreamPa example_overrides False = Inr (example_node False) \<and>
   \<not> flag_publish (example_node False) \<and> file_dir (example_node False) = [] \<and>
   \<not> is_open (file_handle (example_node False)) \<and>
   ubloxCallback [1, 2, 3] 3 (example_node False) = Inr (example_node False) \<and>
   msgCallback (str2uint8 ''abc'') (example_node False) = example_node False"
  using constructed_node_idle [OF example_node_constructed, of False]
  by (simp add: example_node_constructed)

section \<open>Writing the file\<close>

text \<open>
  C6: in a session with the file open, a sequence of chunks given to \<open>saveToFile\<close> one
  after the other goes to the same file, and the bytes written are the bytes written
  before followed by the concatenation of the chunks in their order, with nothing
  between them. For the session that \<open>initialize\<close> has just started, the bytes written
  are exactly that concatenation, and the file is the one named by \<open>file_name\<close>.
\<close>

theorem saveToFile_concat:
  assumes "session n" and "is_open (file_handle n)"
    and "n' = foldl (\<lambda>m chunk. saveToFile chunk m) n chunks"
  shows "rdbuf (file_handle n') = rdbuf (file_handle n) \<and>
     file_name n' = file_name n \<and>
     written (file_handle n') = written (file_handle n) @ concat chunks \<and>
     (\<forall>sys t fs n0. \<not> is_open (file_handle n0) \<and> n = snd (initialize sys t fs n0) \<longrightarrow>
        rdbuf (file_handle n') = Some (file_name n) \<and> written (file_handle n') = concat chunks)"
proof -
  have n': "n' = n\<lparr>file_handle := (file_handle n)\<lparr>written := written (file_handle n) @ concat chunks\<rparr>\<rparr>"
    unfolding assms(3) using assms(2) session_good [OF assms(1,2)] by (rule foldl_saveToFile)
  have "rdbuf (file_handle n) = Some (file_name n) \<and> written (file_handle n) = []"
    if "\<not> is_open (file_handle n0)" "n = snd (initialize sys t fs n0)" for sys t fs n0
    using initialize_opened [of n0 sys t fs] that assms(2) by simp
  with n' show ?thesis by auto
qed

theorem saveToFile_concat_witness:
  "session example_session \<and> is_open (file_handle example_session) \<and>
   \<not> is_open (file_handle example_producer) \<and>
   rdbuf (file_handle (foldl (\<lambda>m chunk. saveToFile chunk m) example_session [''ab'', [], ''cde''])) =
     Some ''/var/log/ublox/2024_03_07_0905.log'' \<and>
   file_name (foldl (\<lambda>m chunk. saveToFile chunk m) example_session [''ab'', [], ''cde'']) =
     ''/var/log/ublox/2024_03_07_0905.log'' \<and>
   written (file_handle (foldl (\<lambda>m chunk. saveToFile chunk m) example_session [''ab'', [], ''cde''])) =
     ''abcde''"
proof -
  have open': "is_open (file_handle example_session)"
    by (simp add: example_session_eq is_open_def)
  from saveToFile_concat [OF session_example_session open' refl, of "[''ab'', [], ''cde'']"]
  show ?thesis
    using session_example_session open'
    by (simp add: example_session_eq example_producer_def example_node_def is_open_def
        ofstream_init_def)
qed

section \<open>Initialization\<close>

text \<open>
  C7: at the local time 2024-03-07 09:05 (\<open>tm_year\<close> 124, \<open>tm_mon\<close> 2) the name computed
  for the log file is \<^verbatim>\<open>2024_03_07_0905\<close> followed by \<^verbatim>\<open>.log\<close>, and when the
  directory passes the checks of \<open>initialize\<close>, \<open>file_name\<close> is the directory, with a
  slash appended unless it ends in one, followed by that name.
\<close>

theorem initialize_file_name:
  assumes "tm_year t = 124" "tm_mon t = 2" "tm_mday t = 7" "tm_hour t = 9" "tm_min t = 5"
  shows "log_filename t = ''2024_03_07_0905'' @ ''.log'' \<and>
     (file_dir n \<noteq> [] \<and> os_stat sys fs (file_dir n) = Some stat_info \<and>
      st_mode stat_info AND S_IFDIR = S_IFDIR \<longrightarrow>
        file_name (snd (initialize sys t fs n)) =
          (if last (file_dir n) = CHR ''/'' then file_dir n else file_dir n @ ''/'') @
          ''2024_03_07_0905'' @ ''.log'')"
  by (auto simp: log_filename_0905 [OF assms] initialize_def open_log_def Let_def wire_channel_keeps
      RCLCPP_INFO_def split: prod.splits)

theorem initialize_file_name_witness:
  "tm_year example_time = 124 \<and> tm_mon example_time = 2 \<and> tm_mday example_time = 7 \<and>
   tm_hour example_time = 9 \<and> tm_min example_time = 5 \<and>
   log_filename example_time = ''2024_03_07_0905.log'' \<and>
   file_dir example_producer = ''/var/log/ublox'' \<and>
   os_stat example_os example_fs (file_dir example_producer) = Some \<lparr>st_mode = 0x41ED\<rparr> \<and>
   file_name (snd (initialize example_os example_time example_fs example_producer)) =
     ''/var/log/ublox/2024_03_07_0905.log''"
proof -
  have t: "tm_year example_time = 124" "tm_mon example_time = 2" "tm_mday example_time = 7"
    "tm_hour example_time = 9" "tm_min example_time = 5"
    by (simp_all add: example_time_def)
  have d: "file_dir example_producer = ''/var/log/ublox''"
    by (simp add: example_producer_def)
  have s: "os_stat example_os example_fs (file_dir example_producer) = Some \<lparr>st_mode = 0x41ED\<rparr>"
    by (simp add: d example_os_def example_fs_def)
  have m: "st_mode \<lparr>st_mode = 0x41ED\<rparr> AND S_IFDIR = S_IFDIR"
    by (simp add: S_IFDIR_def)
  from initialize_file_name [OF t, of example_producer example_os example_fs "\<lparr>st_mode = 0x41ED\<rparr>"] s m d
  show ?thesis using t by simp
qed

text \<open>
  C8: a log directory that does not exist or is not a directory makes \<open>initialize\<close>
  report an error and open no file. The program does so when \<^verbatim>\<open>stat\<close> fails and when
  the mode lacks the bit \<open>S_IFDIR\<close> (lemma \<open>initialize_rejects\<close>). It does not for a
  path that exists and is not a directory but whose file type contains that bit, as
  the types of block devices and sockets do (lemma \<open>S_IFDIR_bit\<close>): the test
  \<^verbatim>\<open>(st_mode & S_IFDIR) != S_IFDIR\<close> lets them pass. For the block device
  \<^verbatim>\<open>/dev/sda\<close>, \<open>initialize\<close> tries to open a file below it, which fails without an
  exception, and then logs at level INFO that it is logging to that file. No file is
  opened or created, and no error is reported.
\<close>

theorem initialize_block_device:
  \<open>and_then (RawDataStreamPa [(''raw_data_stream.dir'', ParameterString ''/dev/sda'')] False)
     getRosParams = Inr example_blockdev \<and>
   os_stat example_os example_fs (file_dir example_blockdev) = Some \<lparr>st_mode = 0x61B0\<rparr> \<and>
   \<not> S_ISDIR 0x61B0 \<and>
   initialize example_os example_time example_fs example_blockdev =
     (example_fs,
      example_blockdev
        \<lparr>file_dir := ''/dev/sda/'',
         file_name := ''/dev/sda/2024_03_07_0905.log'',
         file_handle := \<lparr>rdbuf = None, failbit = True, written = []\<rparr>,
         logger := [(INFO, ''Logging raw data to file "%s"'', [''/dev/sda/2024_03_07_0905.log''])]\<rparr>)\<close>
  by (simp add: RawDataStreamPa_def declare_parameter_def and_then_def getRosParams_def
      get_string_parameter_def get_bool_parameter_def example_blockdev_def
      initialize_def wire_channel_def open_log_def Let_def RCLCPP_INFO_def
      example_os_def example_fs_def S_IFDIR_def S_IFMT_def S_ISDIR_def dirname_def
      log_filename_example ofstream_open_def ofstream_init_def)

end
